theory Spec2Isabelle
  imports Complex_Main "HOL-Library.List_Lexorder" "HOL-Library.Char_ord" "HOL-Library.Sublist"
begin

unbundle bit_operations_syntax

section \<open>The layer record of ezdxf (src/ezdxf/entities/layer.py)\<close>

text \<open>
  A shallow embedding of \<^verbatim>\<open>layer.py\<close>. Python integers are \<^typ>\<open>int\<close>, Python floats
  are read as \<^typ>\<open>real\<close> (only comparisons with 0 and 1 are made on them; NaN is not
  modelled), strings are ASCII \<^typ>\<open>string\<close>s. An exception is a value of \<open>error\<close>; an
  operation that mutates the layer or its document returns the raised exception or the
  returned value together with the state it leaves behind, so that a mutation made
  before a \<^verbatim>\<open>raise\<close> stays visible.
\<close>

subsection \<open>Values, tags and exceptions\<close>

datatype tag_value = IntValue int | StrValue string | FloatValue real

type_synonym dxftag = "int \<times> tag_value"

datatype error =
    ValueError string
  | DXFValueError string
  | AssertionError string
  | IndexError
  | TypeError
  | AttributeError string

subsection \<open>Case-insensitive table keys\<close>

text \<open>Python's \<^verbatim>\<open>str.lower()\<close>, on ASCII strings.\<close>

definition lower_char :: "char \<Rightarrow> char" where
  "lower_char c =
     (case map_of (zip ''ABCDEFGHIJKLMNOPQRSTUVWXYZ'' ''abcdefghijklmnopqrstuvwxyz'') c of
        Some d \<Rightarrow> d
      | None \<Rightarrow> c)"

definition lower :: "string \<Rightarrow> string" where
  "lower s = map lower_char s"

text \<open>
  Modelled from the spec: \<^verbatim>\<open>Table.key\<close>, \<^verbatim>\<open>Table.has_entry\<close>, \<^verbatim>\<open>Table.replace\<close> and
  \<^verbatim>\<open>Table.new\<close> of the record tables (\<^verbatim>\<open>doc.layers\<close>, \<^verbatim>\<open>doc.appids\<close>,
  \<^verbatim>\<open>doc.linetypes\<close>) are missing from the sources. The spec gives a table
  case-insensitive name lookup, an existence check, key replacement and insertion. A
  table is a map from the key of a name to the handle of the entry stored under it.
\<close>

type_synonym table = "string \<rightharpoonup> string"

definition key :: "string \<Rightarrow> string" where
  "key nm = lower nm"

definition has_entry :: "table \<Rightarrow> string \<Rightarrow> bool" where
  "has_entry t nm = (t (key nm) \<noteq> None)"

definition replace_entry :: "table \<Rightarrow> string \<Rightarrow> string \<Rightarrow> string \<Rightarrow> table" where
  "replace_entry t old_name new_name h = (t(key old_name := None))(key new_name \<mapsto> h)"

definition new_entry :: "table \<Rightarrow> string \<Rightarrow> table" where
  "new_entry t nm = t(key nm \<mapsto> nm)"

subsection \<open>Entities, documents and layers\<close>

text \<open>
  What \<^verbatim>\<open>layer.py\<close> reads of an entity of the entity database: its type
  (\<^verbatim>\<open>e.dxftype()\<close>), its \<^verbatim>\<open>layer\<close> attribute (\<open>None\<close> when \<^verbatim>\<open>e.dxf.hasattr("layer")\<close> is
  false) and, for a viewport, its list of frozen layer names (\<open>None\<close> for an entity
  without the attribute \<^verbatim>\<open>frozen_layers\<close>).
\<close>

record DXFEntity =
  dxftype :: string
  layer :: "string option"
  frozen_layers :: "string list option"

text \<open>
  The entity database is a Python dict from handles to entities; its values are visited
  in insertion order and mutated in place.
\<close>

record Document =
  layers :: table
  appids :: table
  linetypes :: table
  entitydb :: "(string \<times> DXFEntity) list"

text \<open>
  The attributes of \<^verbatim>\<open>acdb_layer_table_record\<close>, with the handle of the base class.
  An attribute with a default value read through \<^verbatim>\<open>self.dxf\<close> holds its default when it
  was never set (\<open>flags = 0\<close>, \<open>color = 7\<close>, \<open>linetype = ''Continuous''\<close>); an optional
  attribute and an attribute without default is \<open>None\<close> until it is set.
\<close>

record DXFNamespace =
  handle :: string
  name :: string
  flags :: int
  color :: int
  true_color :: "int option"
  linetype :: string
  plot :: "int option"
  lineweight :: int
  plotstyle_handle :: "string option"
  material_handle :: "string option"
  unknown1 :: "string option"

record Layer =
  dxf :: DXFNamespace
  xdata :: "string \<rightharpoonup> dxftag list"
  doc :: "Document option"

subsection \<open>Names imported from modules that are not among the source files\<close>

text \<open>
  \<^verbatim>\<open>layer.py\<close> imports constants from \<^verbatim>\<open>ezdxf.lldxf.const\<close>, functions from
  \<^verbatim>\<open>ezdxf.lldxf.validator\<close> and \<^verbatim>\<open>ezdxf.colors\<close>, and the base class \<^verbatim>\<open>DXFEntity\<close>
  from \<^verbatim>\<open>ezdxf.entities.dxfentity\<close>. Their definitions are not part of the sources, so
  they are parameters of the model: every function below that uses one of them takes
  the record \<open>lib\<close> as its first argument, and every theorem holds for all values of
  these parameters. Document versions are Python strings, compared with Python's string
  order (lexicographic on code points). \<open>DXFEntity_export_entity\<close> is what
  \<^verbatim>\<open>super().export_entity(tagwriter)\<close> does to the tag writer.
\<close>

type_synonym RGB = "int \<times> int \<times> int"

text \<open>
  Modelled from the spec: the tag writer is missing from the sources. The spec gives it
  a target document version and the primitives that write one (code, value) tag; the
  tags written so far are kept in order.
\<close>

record TagWriter =
  dxfversion :: string
  written :: "dxftag list"

definition write_tag2 :: "TagWriter \<Rightarrow> int \<Rightarrow> tag_value \<Rightarrow> TagWriter" where
  "write_tag2 tw c v = tw\<lparr>written := written tw @ [(c, v)]\<rparr>"

record lib =
  DXF12 :: string
  DXF2000 :: string
  DXF2004 :: string
  DXF2007 :: string
  SUBCLASS_MARKER :: int
  LINEWEIGHT_BYBLOCK :: int
  LINEWEIGHT_BYLAYER :: int
  LINEWEIGHT_DEFAULT :: int
  is_valid_lineweight :: "int \<Rightarrow> bool"
  is_valid_rgb :: "RGB \<Rightarrow> bool"
  int2rgb :: "int \<Rightarrow> RGB"
  transparency2float :: "int \<Rightarrow> real"
  float2transparency :: "real \<Rightarrow> int"
  DXFEntity_export_entity :: "Layer \<Rightarrow> TagWriter \<Rightarrow> TagWriter"

subsection \<open>Validation and repair of the layer color\<close>

definition is_valid_layer_color_index :: "int \<Rightarrow> bool" where
  "is_valid_layer_color_index aci = ((-256 < aci \<and> aci < 256) \<and> aci \<noteq> 0)"

definition fix_layer_color :: "int \<Rightarrow> int" where
  "fix_layer_color aci = (if is_valid_layer_color_index aci then aci else 7)"

definition is_valid_layer_lineweight :: "lib \<Rightarrow> int \<Rightarrow> bool" where
  "is_valid_layer_lineweight L lw =
     (if is_valid_lineweight L lw
      then (if lw \<notin> {LINEWEIGHT_BYLAYER L, LINEWEIGHT_BYBLOCK L} then True else False)
      else False)"

subsection \<open>Color and visibility\<close>

definition is_off :: "Layer \<Rightarrow> bool" where
  "is_off l = (color (dxf l) < 0)"

definition is_on :: "Layer \<Rightarrow> bool" where
  "is_on l = (\<not> is_off l)"

definition on :: "Layer \<Rightarrow> Layer" where
  "on l = l\<lparr>dxf := (dxf l)\<lparr>color := \<bar>color (dxf l)\<bar>\<rparr>\<rparr>"

definition off :: "Layer \<Rightarrow> Layer" where
  "off l = l\<lparr>dxf := (dxf l)\<lparr>color := - \<bar>color (dxf l)\<bar>\<rparr>\<rparr>"

definition get_color :: "Layer \<Rightarrow> int" where
  "get_color l = \<bar>color (dxf l)\<bar>"

definition set_color :: "Layer \<Rightarrow> int \<Rightarrow> Layer" where
  "set_color l c = l\<lparr>dxf := (dxf l)\<lparr>color := (if is_on l then \<bar>c\<bar> else - \<bar>c\<bar>)\<rparr>\<rparr>"

subsection \<open>Extended data: description and transparency\<close>

text \<open>
  Modelled from the spec: \<^verbatim>\<open>DXFEntity.get_xdata\<close>, \<^verbatim>\<open>discard_xdata\<close> and \<^verbatim>\<open>set_xdata\<close>
  are missing from the sources. The spec gives extended data as a payload keyed by an
  application-id; reading an absent payload is the condition the callers catch as
  \<^verbatim>\<open>DXFValueError\<close>, and writing replaces the payload of the application-id.
\<close>

definition get_xdata :: "Layer \<Rightarrow> string \<Rightarrow> error + dxftag list" where
  "get_xdata l appid =
     (case xdata l appid of
        None \<Rightarrow> Inl (DXFValueError appid)
      | Some tags \<Rightarrow> Inr tags)"

definition discard_xdata :: "Layer \<Rightarrow> string \<Rightarrow> Layer" where
  "discard_xdata l appid = l\<lparr>xdata := (xdata l)(appid := None)\<rparr>"

definition set_xdata :: "Layer \<Rightarrow> string \<Rightarrow> dxftag list \<Rightarrow> Layer" where
  "set_xdata l appid tags = l\<lparr>xdata := (xdata l)(appid \<mapsto> tags)\<rparr>"

definition AcAecLayerStandard :: string where
  "AcAecLayerStandard = ''AcAecLayerStandard''"

definition AcCmTransparency :: string where
  "AcCmTransparency = ''AcCmTransparency''"

text \<open>
  \<^verbatim>\<open>if self.doc and appid not in self.doc.appids: self.doc.appids.new(appid)\<close>, the first
  statement of both setters.
\<close>

definition register_appid :: "Layer \<Rightarrow> string \<Rightarrow> Layer" where
  "register_appid l appid =
     (case doc l of
        None \<Rightarrow> l
      | Some d \<Rightarrow>
          if \<not> has_entry (appids d) appid
          then l\<lparr>doc := Some (d\<lparr>appids := new_entry (appids d) appid\<rparr>)\<rparr>
          else l)"

text \<open>The getter of the property \<^verbatim>\<open>description\<close>: only \<^verbatim>\<open>DXFValueError\<close> is caught.\<close>

definition description :: "Layer \<Rightarrow> error + tag_value" where
  "description l =
     (case get_xdata l AcAecLayerStandard of
        Inl (DXFValueError a) \<Rightarrow> Inr (StrValue [])
      | Inl e \<Rightarrow> Inl e
      | Inr xd \<Rightarrow> if length xd > 1 then Inr (snd (xd ! 1)) else Inr (StrValue []))"

definition set_description :: "Layer \<Rightarrow> string \<Rightarrow> Layer" where
  "set_description l v =
     (let l1 = register_appid l AcAecLayerStandard;
          l2 = discard_xdata l1 AcAecLayerStandard
      in set_xdata l2 AcAecLayerStandard [(1000, StrValue []), (1000, StrValue v)])"

text \<open>
  The getter of the property \<^verbatim>\<open>transparency\<close>. \<^verbatim>\<open>xdata[0]\<close> raises \<^verbatim>\<open>IndexError\<close> on an
  empty payload, and \<^verbatim>\<open>t & 0x2000000\<close> raises \<^verbatim>\<open>TypeError\<close> when the value of the first
  tag is a string or a float; neither is caught.
\<close>

definition transparency :: "lib \<Rightarrow> Layer \<Rightarrow> error + real" where
  "transparency L l =
     (case get_xdata l AcCmTransparency of
        Inl (DXFValueError a) \<Rightarrow> Inr 0
      | Inl e \<Rightarrow> Inl e
      | Inr xd \<Rightarrow>
          (case xd of
             [] \<Rightarrow> Inl IndexError
           | tag # rest \<Rightarrow>
               (case snd tag of
                  IntValue t \<Rightarrow>
                    if t AND 0x2000000 \<noteq> 0 then Inr (transparency2float L t) else Inr 0
                | StrValue v \<Rightarrow> Inl TypeError
                | FloatValue v \<Rightarrow> Inl TypeError)))"

text \<open>
  The setter of the property \<^verbatim>\<open>transparency\<close>. The application-id is registered
  before the range check, so the state returned with the \<^verbatim>\<open>ValueError\<close> is the state
  after the registration.
\<close>

definition set_transparency :: "lib \<Rightarrow> Layer \<Rightarrow> real \<Rightarrow> (error + unit) \<times> Layer" where
  "set_transparency L l v =
     (let l1 = register_appid l AcCmTransparency
      in if 0 \<le> v \<and> v \<le> 1
         then (Inr (),
               set_xdata (discard_xdata l1 AcCmTransparency) AcCmTransparency
                 [(1071, IntValue (float2transparency L v))])
         else (Inl (ValueError ''Value out of range (0 .. 1).''), l1))"

subsection \<open>Renaming a layer\<close>

text \<open>
  The characters listed by the docstring of \<^verbatim>\<open>Layer.rename\<close>
  (\<^verbatim>\<open>INVALID_NAME_CHARACTERS\<close> of \<^verbatim>\<open>ezdxf.lldxf.const\<close>): less-than, greater-than,
  slash, backslash, double quote, colon, semicolon, question mark, asterisk, vertical
  bar, equals sign and backtick.
\<close>

definition INVALID_NAME_CHARACTERS :: string where
  "INVALID_NAME_CHARACTERS =
     [CHR ''<'', CHR ''>'', CHR ''/'', CHR 0x5C, CHR 0x22, CHR '':'', CHR '';'', CHR ''?'',
      CHR ''*'', CHR ''|'', CHR ''='', CHR 0x60]"

text \<open>
  Modelled from the spec: \<^verbatim>\<open>validator.is_valid_layer_name\<close> is missing from the sources.
  The spec has \<^verbatim>\<open>rename\<close> validate that the new name contains only legal characters
  and fail otherwise, reporting the illegal character set.
\<close>

definition is_valid_layer_name :: "string \<Rightarrow> bool" where
  "is_valid_layer_name nm = (\<not> list_ex (\<lambda>c. c \<in> set INVALID_NAME_CHARACTERS) nm)"

text \<open>
  Modelled from the spec: \<^verbatim>\<open>Viewport.rename_frozen_layer\<close> is missing from the sources.
  The spec names it the per-type rename hook for a viewport's separately stored list of
  frozen member-names; it rewrites the names of that list that equal the old name
  case-insensitively and touches nothing else.
\<close>

definition rename_frozen_layer :: "string \<Rightarrow> string \<Rightarrow> DXFEntity \<Rightarrow> DXFEntity" where
  "rename_frozen_layer old_name new_name e =
     e\<lparr>frozen_layers :=
         map_option (map (\<lambda>n. if key n = key old_name then new_name else n))
           (frozen_layers e)\<rparr>"

definition dquote :: string where
  "dquote = [CHR 0x22]"

definition renaming_notice :: "string \<Rightarrow> string \<Rightarrow> string" where
  "renaming_notice old_name entity_type =
     ''renaming layer '' @ dquote @ old_name @ dquote @ '' - document contains '' @ entity_type"

text \<open>
  The body of the loop of \<^verbatim>\<open>_rename_layer_references\<close> for one entity \<open>e\<close>: the entity
  as the body leaves it and the messages it passes to \<^verbatim>\<open>logger.debug\<close>.
\<close>

definition rename_reference :: "string \<Rightarrow> string \<Rightarrow> DXFEntity \<Rightarrow> DXFEntity \<times> string list" where
  "rename_reference old_name new_name e =
     (let e1 = (case layer e of
                  None \<Rightarrow> e
                | Some n \<Rightarrow> if key n = key old_name then e\<lparr>layer := Some new_name\<rparr> else e);
          entity_type = dxftype e1
      in if entity_type = ''VIEWPORT'' then (rename_frozen_layer old_name new_name e1, [])
         else if entity_type = ''LAYER_FILTER''
         then (e1, [renaming_notice old_name ''LAYER_FILTER''])
         else if entity_type = ''LAYER_INDEX''
         then (e1, [renaming_notice old_name ''LAYER_INDEX''])
         else (e1, []))"

text \<open>The loop over \<^verbatim>\<open>self.doc.entitydb.values()\<close>.\<close>

fun rename_references :: "string \<Rightarrow> string \<Rightarrow> (string \<times> DXFEntity) list
    \<Rightarrow> (string \<times> DXFEntity) list \<times> string list" where
  "rename_references old_name new_name [] = ([], [])"
| "rename_references old_name new_name ((h, e) # db) =
     (let (e', notices) = rename_reference old_name new_name e;
          (db', notices') = rename_references old_name new_name db
      in ((h, e') # db', notices @ notices'))"

text \<open>
  \<^verbatim>\<open>Layer._rename_layer_references\<close> and \<^verbatim>\<open>Layer.rename\<close>. The result is the exception
  or \<^verbatim>\<open>None\<close>, the layer (with its document) after the call and the debug messages
  logged by the call.
\<close>

definition rename_layer_references :: "Layer \<Rightarrow> string \<Rightarrow> string
    \<Rightarrow> (error + unit) \<times> Layer \<times> string list" where
  "rename_layer_references l old_name new_name =
     (case doc l of
        None \<Rightarrow> (Inl (AssertionError ''valid DXF document is required''), l, [])
      | Some d \<Rightarrow>
          (let (db', notices) = rename_references old_name new_name (entitydb d)
           in (Inr (), l\<lparr>doc := Some (d\<lparr>entitydb := db'\<rparr>)\<rparr>, notices)))"

definition rename :: "Layer \<Rightarrow> string \<Rightarrow> (error + unit) \<times> Layer \<times> string list" where
  "rename l nm =
     (if \<not> is_valid_layer_name nm
      then (Inl (ValueError (''Name contains invalid characters: ''
                              @ INVALID_NAME_CHARACTERS @ ''.'')), l, [])
      else (case doc l of
              None \<Rightarrow> (Inl (AssertionError ''valid DXF document is required''), l, [])
            | Some d \<Rightarrow>
                if lower (name (dxf l)) \<in> {''0'', ''defpoints''}
                then (Inl (ValueError (''Can not rename layer '' @ dquote @ name (dxf l)
                                        @ dquote @ ''.'')), l, [])
                else if has_entry (layers d) nm
                then (Inl (ValueError (''Layer '' @ dquote @ nm @ dquote
                                        @ '' already exist.'')), l, [])
                else (let old = name (dxf l);
                          l1 = l\<lparr>dxf := (dxf l)\<lparr>name := nm\<rparr>\<rparr>;
                          l2 = l1\<lparr>doc := Some (d\<lparr>layers :=
                                  replace_entry (layers d) old (name (dxf l1))
                                    (handle (dxf l1))\<rparr>)\<rparr>
                      in rename_layer_references l2 old nm)))"

subsection \<open>Export\<close>

text \<open>
  The declarations of \<^verbatim>\<open>acdb_layer_table_record\<close> as far as the export reads them: the
  group code, the minimal document version (\<open>None\<close> when the declaration gives none) and
  the flag \<^verbatim>\<open>optional\<close>.
\<close>

record DXFAttr =
  code :: int
  min_dxfversion :: "string option"
  optional :: bool

definition acdb_layer_table_record :: "lib \<Rightarrow> (string \<times> DXFAttr) list" where
  "acdb_layer_table_record L =
     [(''name'', \<lparr>code = 2, min_dxfversion = None, optional = False\<rparr>),
      (''flags'', \<lparr>code = 70, min_dxfversion = None, optional = False\<rparr>),
      (''color'', \<lparr>code = 62, min_dxfversion = None, optional = False\<rparr>),
      (''true_color'', \<lparr>code = 420, min_dxfversion = Some (DXF2004 L), optional = True\<rparr>),
      (''linetype'', \<lparr>code = 6, min_dxfversion = None, optional = False\<rparr>),
      (''plot'', \<lparr>code = 290, min_dxfversion = Some (DXF2000 L), optional = True\<rparr>),
      (''lineweight'', \<lparr>code = 370, min_dxfversion = Some (DXF2000 L), optional = False\<rparr>),
      (''plotstyle_handle'', \<lparr>code = 390, min_dxfversion = Some (DXF2000 L), optional = False\<rparr>),
      (''material_handle'', \<lparr>code = 347, min_dxfversion = Some (DXF2007 L), optional = False\<rparr>),
      (''unknown1'', \<lparr>code = 348, min_dxfversion = Some (DXF2007 L), optional = True\<rparr>)]"

text \<open>The current value of an attribute of the namespace, \<open>None\<close> when it has none.\<close>

definition attrib_value :: "DXFNamespace \<Rightarrow> string \<Rightarrow> tag_value option" where
  "attrib_value ns a =
     (if a = ''name'' then Some (StrValue (name ns))
      else if a = ''flags'' then Some (IntValue (flags ns))
      else if a = ''color'' then Some (IntValue (color ns))
      else if a = ''true_color'' then map_option IntValue (true_color ns)
      else if a = ''linetype'' then Some (StrValue (linetype ns))
      else if a = ''plot'' then map_option IntValue (plot ns)
      else if a = ''lineweight'' then Some (IntValue (lineweight ns))
      else if a = ''plotstyle_handle'' then map_option StrValue (plotstyle_handle ns)
      else if a = ''material_handle'' then map_option StrValue (material_handle ns)
      else if a = ''unknown1'' then map_option StrValue (unknown1 ns)
      else None)"

text \<open>
  Modelled from the spec: \<^verbatim>\<open>DXFNamespace.export_dxf_attribs\<close> is missing from the
  sources. The encode contract of the spec: for each name of the list, in order, skip
  the attribute if its minimal version exceeds the target version, skip it if it was
  never set (an attribute without a value writes nothing), otherwise emit one tag with
  the declared group code and the current value.
\<close>

definition attrib_tags :: "lib \<Rightarrow> DXFNamespace \<Rightarrow> string \<Rightarrow> string \<Rightarrow> dxftag list" where
  "attrib_tags L ns version a =
     (case map_of (acdb_layer_table_record L) a of
        None \<Rightarrow> []
      | Some d \<Rightarrow>
          if (case min_dxfversion d of None \<Rightarrow> False | Some v \<Rightarrow> version < v) then []
          else (case attrib_value ns a of
                  None \<Rightarrow> []
                | Some v \<Rightarrow> [(code d, v)]))"

fun export_dxf_attribs :: "lib \<Rightarrow> DXFNamespace \<Rightarrow> TagWriter \<Rightarrow> string list \<Rightarrow> TagWriter" where
  "export_dxf_attribs L ns tw [] = tw"
| "export_dxf_attribs L ns tw (a # as) =
     export_dxf_attribs L ns
       (tw\<lparr>written := written tw @ attrib_tags L ns (dxfversion tw) a\<rparr>) as"

text \<open>\<^verbatim>\<open>Layer.export_entity\<close>.\<close>

definition export_entity :: "lib \<Rightarrow> Layer \<Rightarrow> TagWriter \<Rightarrow> TagWriter" where
  "export_entity L l tagwriter =
     (let tw1 = DXFEntity_export_entity L l tagwriter;
          tw2 = (if dxfversion tw1 > DXF12 L
                 then write_tag2
                        (write_tag2 tw1 (SUBCLASS_MARKER L) (StrValue ''AcDbSymbolTableRecord''))
                        (SUBCLASS_MARKER L) (StrValue ''AcDbLayerTableRecord'')
                 else tw1)
      in export_dxf_attribs L (dxf l) tw2
           [''name'', ''flags'', ''color'', ''true_color'', ''linetype'', ''plot'',
            ''lineweight'', ''plotstyle_handle'', ''material_handle'', ''unknown1''])"

text \<open>The group code that the declaration of an attribute gives it.\<close>

definition declared_codes :: "lib \<Rightarrow> string \<Rightarrow> int list" where
  "declared_codes L a =
     (case map_of (acdb_layer_table_record L) a of None \<Rightarrow> [] | Some d \<Rightarrow> [code d])"

subsection \<open>Viewport overrides\<close>

record OverrideAttributes =
  aci :: int
  rgb :: "RGB option"
  vp_transparency :: real
  vp_linetype :: string
  vp_lineweight :: int
  frozen :: bool

text \<open>
  The object \<^verbatim>\<open>ViewportOverrides\<close>: the fields \<^verbatim>\<open>_layer\<close> and \<^verbatim>\<open>_overrides\<close>, a dict from
  viewport handles to override attributes.
\<close>

record ViewportOverrides =
  v_layer :: Layer
  overrides :: "string \<rightharpoonup> OverrideAttributes"

definition load_layer_overrides :: "Layer \<Rightarrow> (string \<rightharpoonup> OverrideAttributes)" where
  "load_layer_overrides l = Map.empty"

definition get_vp_overrides :: "Layer \<Rightarrow> error + ViewportOverrides" where
  "get_vp_overrides l =
     (case doc l of
        None \<Rightarrow> Inl (AssertionError ''valid DXF document required'')
      | Some d \<Rightarrow> Inr \<lparr>v_layer = l, overrides = load_layer_overrides l\<rparr>)"

definition has_overrides :: "ViewportOverrides \<Rightarrow> string option \<Rightarrow> bool" where
  "has_overrides vo vp_handle =
     (case vp_handle of
        None \<Rightarrow> overrides vo \<noteq> Map.empty
      | Some h \<Rightarrow> h \<in> dom (overrides vo))"

text \<open>The property \<^verbatim>\<open>Layer.rgb\<close>.\<close>

definition layer_rgb :: "lib \<Rightarrow> Layer \<Rightarrow> RGB option" where
  "layer_rgb L l = map_option (int2rgb L) (true_color (dxf l))"

text \<open>
  \<^verbatim>\<open>is_layer_frozen_in_vp\<close>. \<^verbatim>\<open>layer.doc.entitydb\<close> raises \<^verbatim>\<open>AttributeError\<close> when the
  layer has no document, and so does \<^verbatim>\<open>vp.frozen_layers\<close> when the handle is the handle
  of an entity without that attribute.
\<close>

definition is_layer_frozen_in_vp :: "Layer \<Rightarrow> string \<Rightarrow> error + bool" where
  "is_layer_frozen_in_vp l vp_handle =
     (case doc l of
        None \<Rightarrow> Inl (AttributeError ''entitydb'')
      | Some d \<Rightarrow>
          (case map_of (entitydb d) vp_handle of
             None \<Rightarrow> Inr False
           | Some vp \<Rightarrow>
               (case frozen_layers vp of
                  None \<Rightarrow> Inl (AttributeError ''frozen_layers'')
                | Some names \<Rightarrow> Inr (name (dxf l) \<in> set names))))"

text \<open>
  \<^verbatim>\<open>default_settings\<close> reads every setting of the layer when it is called; the getter of
  \<^verbatim>\<open>transparency\<close> is the one that can raise.
\<close>

definition default_settings :: "lib \<Rightarrow> ViewportOverrides \<Rightarrow> bool \<Rightarrow> error + OverrideAttributes" where
  "default_settings L vo fr =
     (let l = v_layer vo
      in case transparency L l of
           Inl e \<Rightarrow> Inl e
         | Inr t \<Rightarrow>
             Inr \<lparr>aci = get_color l, rgb = layer_rgb L l, vp_transparency = t,
                  vp_linetype = linetype (dxf l), vp_lineweight = lineweight (dxf l),
                  frozen = fr\<rparr>)"

text \<open>
  \<^verbatim>\<open>_acquire_overrides\<close>: the argument of \<^verbatim>\<open>setdefault\<close> is evaluated before the call,
  whether or not the handle has an entry.
\<close>

definition acquire_overrides :: "lib \<Rightarrow> ViewportOverrides \<Rightarrow> string
    \<Rightarrow> (error + OverrideAttributes) \<times> ViewportOverrides" where
  "acquire_overrides L vo vp_handle =
     (case is_layer_frozen_in_vp (v_layer vo) vp_handle of
        Inl e \<Rightarrow> (Inl e, vo)
      | Inr fr \<Rightarrow>
          (case default_settings L vo fr of
             Inl e \<Rightarrow> (Inl e, vo)
           | Inr dflt \<Rightarrow>
               (case overrides vo vp_handle of
                  Some a \<Rightarrow> (Inr a, vo)
                | None \<Rightarrow> (Inr dflt, vo\<lparr>overrides := (overrides vo)(vp_handle \<mapsto> dflt)\<rparr>))))"

text \<open>\<^verbatim>\<open>_get_overrides\<close>: the store is not written.\<close>

definition get_overrides :: "lib \<Rightarrow> ViewportOverrides \<Rightarrow> string \<Rightarrow> error + OverrideAttributes" where
  "get_overrides L vo vp_handle =
     (case overrides vo vp_handle of
        Some a \<Rightarrow> Inr a
      | None \<Rightarrow>
          (case is_layer_frozen_in_vp (v_layer vo) vp_handle of
             Inl e \<Rightarrow> Inl e
           | Inr fr \<Rightarrow> default_settings L vo fr))"

text \<open>
  A setter validates its argument, acquires the entry of the handle and assigns one
  field of it; the entry is the object stored in the dict, so the assignment changes the
  stored entry. \<open>modify_overrides\<close> is the part after the validation.
\<close>

definition modify_overrides :: "lib \<Rightarrow> ViewportOverrides \<Rightarrow> string
    \<Rightarrow> (OverrideAttributes \<Rightarrow> OverrideAttributes) \<Rightarrow> (error + unit) \<times> ViewportOverrides" where
  "modify_overrides L vo vp_handle f =
     (case acquire_overrides L vo vp_handle of
        (Inl e, vo1) \<Rightarrow> (Inl e, vo1)
      | (Inr a, vo1) \<Rightarrow> (Inr (), vo1\<lparr>overrides := (overrides vo1)(vp_handle \<mapsto> f a)\<rparr>))"

definition vp_set_color :: "lib \<Rightarrow> ViewportOverrides \<Rightarrow> string \<Rightarrow> int
    \<Rightarrow> (error + unit) \<times> ViewportOverrides" where
  "vp_set_color L vo vp_handle v =
     (if \<not> is_valid_layer_color_index v then (Inl (ValueError ''invalid ACI value''), vo)
      else modify_overrides L vo vp_handle (\<lambda>a. a\<lparr>aci := v\<rparr>))"

definition vp_set_rgb :: "lib \<Rightarrow> ViewportOverrides \<Rightarrow> string \<Rightarrow> RGB option
    \<Rightarrow> (error + unit) \<times> ViewportOverrides" where
  "vp_set_rgb L vo vp_handle v =
     (if (case v of None \<Rightarrow> False | Some c \<Rightarrow> \<not> is_valid_rgb L c)
      then (Inl (ValueError ''invalid RGB value''), vo)
      else modify_overrides L vo vp_handle (\<lambda>a. a\<lparr>rgb := v\<rparr>))"

definition vp_set_transparency :: "lib \<Rightarrow> ViewportOverrides \<Rightarrow> string \<Rightarrow> real
    \<Rightarrow> (error + unit) \<times> ViewportOverrides" where
  "vp_set_transparency L vo vp_handle v =
     (if \<not> (0 \<le> v \<and> v \<le> 1) then (Inl (ValueError ''invalid transparency''), vo)
      else modify_overrides L vo vp_handle (\<lambda>a. a\<lparr>vp_transparency := v\<rparr>))"

definition vp_set_linetype :: "lib \<Rightarrow> ViewportOverrides \<Rightarrow> string \<Rightarrow> string
    \<Rightarrow> (error + unit) \<times> ViewportOverrides" where
  "vp_set_linetype L vo vp_handle v =
     (case doc (v_layer vo) of
        None \<Rightarrow> (Inl (AttributeError ''linetypes''), vo)
      | Some d \<Rightarrow>
          if \<not> has_entry (linetypes d) v then (Inl (ValueError ''invalid linetype''), vo)
          else modify_overrides L vo vp_handle (\<lambda>a. a\<lparr>vp_linetype := v\<rparr>))"

definition vp_set_lineweight :: "lib \<Rightarrow> ViewportOverrides \<Rightarrow> string \<Rightarrow> int
    \<Rightarrow> (error + unit) \<times> ViewportOverrides" where
  "vp_set_lineweight L vo vp_handle v =
     (if \<not> is_valid_layer_lineweight L v then (Inl (ValueError ''invalid lineweight''), vo)
      else modify_overrides L vo vp_handle (\<lambda>a. a\<lparr>vp_lineweight := v\<rparr>))"

definition vp_freeze :: "lib \<Rightarrow> ViewportOverrides \<Rightarrow> string \<Rightarrow> (error + unit) \<times> ViewportOverrides" where
  "vp_freeze L vo vp_handle = modify_overrides L vo vp_handle (\<lambda>a. a\<lparr>frozen := True\<rparr>)"

definition vp_thaw :: "lib \<Rightarrow> ViewportOverrides \<Rightarrow> string \<Rightarrow> (error + unit) \<times> ViewportOverrides" where
  "vp_thaw L vo vp_handle = modify_overrides L vo vp_handle (\<lambda>a. a\<lparr>frozen := False\<rparr>)"

text \<open>
  A getter returns one field of what \<^verbatim>\<open>_get_overrides\<close> returns. It is given with the
  store after the call, which is the store before the call.
\<close>

definition read_overrides :: "lib \<Rightarrow> ViewportOverrides \<Rightarrow> string \<Rightarrow> (OverrideAttributes \<Rightarrow> 'a)
    \<Rightarrow> (error + 'a) \<times> ViewportOverrides" where
  "read_overrides L vo vp_handle field =
     (case get_overrides L vo vp_handle of
        Inl e \<Rightarrow> (Inl e, vo)
      | Inr a \<Rightarrow> (Inr (field a), vo))"

definition vp_get_color :: "lib \<Rightarrow> ViewportOverrides \<Rightarrow> string \<Rightarrow> (error + int) \<times> ViewportOverrides" where
  "vp_get_color L vo vp_handle = read_overrides L vo vp_handle aci"

definition vp_get_rgb :: "lib \<Rightarrow> ViewportOverrides \<Rightarrow> string
    \<Rightarrow> (error + RGB option) \<times> ViewportOverrides" where
  "vp_get_rgb L vo vp_handle = read_overrides L vo vp_handle rgb"

definition vp_get_transparency :: "lib \<Rightarrow> ViewportOverrides \<Rightarrow> string
    \<Rightarrow> (error + real) \<times> ViewportOverrides" where
  "vp_get_transparency L vo vp_handle = read_overrides L vo vp_handle vp_transparency"

definition vp_get_linetype :: "lib \<Rightarrow> ViewportOverrides \<Rightarrow> string
    \<Rightarrow> (error + string) \<times> ViewportOverrides" where
  "vp_get_linetype L vo vp_handle = read_overrides L vo vp_handle vp_linetype"

definition vp_get_lineweight :: "lib \<Rightarrow> ViewportOverrides \<Rightarrow> string
    \<Rightarrow> (error + int) \<times> ViewportOverrides" where
  "vp_get_lineweight L vo vp_handle = read_overrides L vo vp_handle vp_lineweight"

definition vp_is_frozen :: "lib \<Rightarrow> ViewportOverrides \<Rightarrow> string
    \<Rightarrow> (error + bool) \<times> ViewportOverrides" where
  "vp_is_frozen L vo vp_handle = read_overrides L vo vp_handle frozen"

section \<open>Sample data\<close>

text \<open>
  The layer of the spec's example scenario: \<open>WALLS\<close>, switched off, color magnitude 5;
  first detached, then attached to a small document.
\<close>

definition sample_dxf :: DXFNamespace where
  "sample_dxf = \<lparr>handle = ''2A'', name = ''WALLS'', flags = 0, color = -5,
     true_color = None, linetype = ''Continuous'', plot = None, lineweight = -3,
     plotstyle_handle = None, material_handle = None, unknown1 = None\<rparr>"

definition sample_layer :: Layer where
  "sample_layer = \<lparr>dxf = sample_dxf, xdata = Map.empty, doc = None\<rparr>"

definition sample_entitydb :: "(string \<times> DXFEntity) list" where
  "sample_entitydb =
     [(''2A'', \<lparr>dxftype = ''LAYER'', layer = None, frozen_layers = None\<rparr>),
      (''30'', \<lparr>dxftype = ''LINE'', layer = Some ''walls'', frozen_layers = None\<rparr>),
      (''31'', \<lparr>dxftype = ''CIRCLE'', layer = Some ''DOORS'', frozen_layers = None\<rparr>),
      (''32'', \<lparr>dxftype = ''VIEWPORT'', layer = Some ''0'', frozen_layers = Some [''WALLS'']\<rparr>),
      (''33'', \<lparr>dxftype = ''LAYER_FILTER'', layer = None, frozen_layers = None\<rparr>)]"

definition sample_doc :: Document where
  "sample_doc =
     \<lparr>layers = [''0'' \<mapsto> ''10'', ''walls'' \<mapsto> ''2A'', ''doors'' \<mapsto> ''2B''],
      appids = [''acad'' \<mapsto> ''ACAD''],
      linetypes = [''continuous'' \<mapsto> ''14''],
      entitydb = sample_entitydb\<rparr>"

definition sample_attached :: Layer where
  "sample_attached = sample_layer\<lparr>doc := Some sample_doc\<rparr>"

text \<open>
  Sample values for the parameters of the model; no theorem about the program depends
  on them. The inherited export writes nothing.
\<close>

definition sample_lib :: lib where
  "sample_lib =
     \<lparr>DXF12 = ''AC1009'', DXF2000 = ''AC1015'', DXF2004 = ''AC1018'', DXF2007 = ''AC1021'',
      SUBCLASS_MARKER = 100, LINEWEIGHT_BYBLOCK = -2, LINEWEIGHT_BYLAYER = -1,
      LINEWEIGHT_DEFAULT = -3,
      is_valid_lineweight = (\<lambda>lw. lw \<in> {-3, -2, -1, 0, 13, 25, 50, 100, 211}),
      is_valid_rgb = (\<lambda>(r, g, b). 0 \<le> r \<and> r \<le> 255 \<and> 0 \<le> g \<and> g \<le> 255 \<and> 0 \<le> b \<and> b \<le> 255),
      int2rgb = (\<lambda>v. ((v div 65536) mod 256, (v div 256) mod 256, v mod 256)),
      transparency2float = (\<lambda>t. 1 - real_of_int (t mod 256) / 255),
      float2transparency = (\<lambda>v. \<lfloor>(1 - v) * 255\<rfloor> + 0x2000000),
      DXFEntity_export_entity = (\<lambda>l tw. tw)\<rparr>"

definition sample_overrides :: ViewportOverrides where
  "sample_overrides = \<lparr>v_layer = sample_attached, overrides = Map.empty\<rparr>"

section \<open>Theorems\<close>

subsection \<open>Layer color validation and repair\<close>

text \<open>
  C6: for every integer \<open>aci\<close>, \<open>is_valid_layer_color_index aci\<close> holds exactly when
  \<open>1 \<le> |aci| \<le> 255\<close>; \<open>fix_layer_color\<close> returns \<open>aci\<close> unchanged when it is valid and
  7 otherwise; and the output of the fixer always satisfies the validator.
\<close>

theorem layer_color_validation_and_repair:
  "is_valid_layer_color_index i = (1 \<le> \<bar>i\<bar> \<and> \<bar>i\<bar> \<le> 255)
   \<and> fix_layer_color i = (if 1 \<le> \<bar>i\<bar> \<and> \<bar>i\<bar> \<le> 255 then i else 7)
   \<and> is_valid_layer_color_index (fix_layer_color v)"
  unfolding fix_layer_color_def is_valid_layer_color_index_def by auto

theorem layer_color_validation_and_repair_witness:
  "is_valid_layer_color_index (-255) \<and> \<not> is_valid_layer_color_index 0
   \<and> \<not> is_valid_layer_color_index 256 \<and> fix_layer_color (-255) = -255
   \<and> fix_layer_color 256 = 7 \<and> is_valid_layer_color_index (fix_layer_color 0)"
  using layer_color_validation_and_repair [of "-255" 0]
    layer_color_validation_and_repair [of 0 0]
    layer_color_validation_and_repair [of 256 0]
  by simp

subsection \<open>Color sign and magnitude\<close>

text \<open>
  C1: for every layer and every magnitude \<open>m\<close> with \<open>1 \<le> m \<le> 255\<close>, calling
  \<open>set_color m\<close> and then toggling visibility with \<open>on\<close> or \<open>off\<close> leaves \<open>get_color\<close>
  equal to \<open>m\<close>; toggling visibility never changes the stored magnitude \<open>|dxf.color|\<close>;
  and \<open>set_color\<close> does not change the visibility state (\<open>is_on\<close> and \<open>is_off\<close> before
  equal those after).
\<close>

theorem color_sign_magnitude_independence:
  "\<bar>color (dxf (on l))\<bar> = \<bar>color (dxf l)\<bar>
   \<and> \<bar>color (dxf (off l))\<bar> = \<bar>color (dxf l)\<bar>
   \<and> get_color (on l) = get_color l
   \<and> get_color (off l) = get_color l
   \<and> (1 \<le> m \<and> m \<le> 255 \<longrightarrow>
         get_color (set_color l m) = m
       \<and> get_color (on (set_color l m)) = m
       \<and> get_color (off (set_color l m)) = m
       \<and> is_on (set_color l m) = is_on l
       \<and> is_off (set_color l m) = is_off l)"
  by (auto simp: get_color_def on_def off_def set_color_def is_on_def is_off_def)

theorem color_sign_magnitude_independence_witness:
  "get_color (on (set_color sample_layer 12)) = 12
   \<and> get_color (off (set_color sample_layer 12)) = 12
   \<and> color (dxf (set_color sample_layer 12)) = -12
   \<and> is_off sample_layer \<and> is_off (set_color sample_layer 12)"
  using color_sign_magnitude_independence [of sample_layer 12]
  by (simp add: sample_layer_def sample_dxf_def set_color_def is_on_def is_off_def)

subsection \<open>Evaluation of the sample data\<close>

lemmas sample_defs = sample_attached_def sample_layer_def sample_dxf_def sample_doc_def
  sample_entitydb_def
lemmas key_defs = key_def lower_def lower_char_def


subsection \<open>The transparency property\<close>

lemma transparency_absent_payload:
  "xdata l AcCmTransparency = None \<Longrightarrow> transparency L l = Inr 0"
  by (simp add: transparency_def get_xdata_def)

lemma transparency_flag_absent:
  "xdata l AcCmTransparency = Some ((c, IntValue t) # rest) \<Longrightarrow> t AND 0x2000000 = 0
    \<Longrightarrow> transparency L l = Inr 0"
  by (simp add: transparency_def get_xdata_def)

lemma transparency_byblock:
  "xdata l AcCmTransparency = Some ((c, IntValue 0x1000000) # rest)
    \<Longrightarrow> transparency L l = Inr 0"
  by (simp add: transparency_def get_xdata_def)

lemma transparency_raises_iff:
  "(\<exists>e. transparency L l = Inl e) =
     (xdata l AcCmTransparency = Some [] \<or>
      (\<exists>c v rest. xdata l AcCmTransparency = Some ((c, v) # rest) \<and> (\<forall>t. v \<noteq> IntValue t)))"
  by (auto simp: transparency_def get_xdata_def
      split: option.splits list.splits tag_value.splits)

text \<open>
  C5: reading the transparency property is claimed never to raise. The getter catches
  the absent payload only: on a layer whose payload for \<open>AcCmTransparency\<close> is present
  and empty, \<^verbatim>\<open>xdata[0]\<close> raises \<^verbatim>\<open>IndexError\<close>. (The getter of \<^verbatim>\<open>description\<close> guards the
  same read with \<^verbatim>\<open>len(xdata) > 1\<close>.) The other parts of the claim hold: see
  \<open>transparency_absent_payload\<close>, \<open>transparency_flag_absent\<close> and \<open>transparency_byblock\<close>.
\<close>

theorem transparency_empty_payload_raises:
  "transparency L (sample_layer\<lparr>xdata := [AcCmTransparency \<mapsto> []]\<rparr>) = Inl IndexError"
  by (simp add: transparency_def get_xdata_def)

lemma set_transparency_raises_iff:
  "(\<exists>e. fst (set_transparency L l v) = Inl e) = (\<not> (0 \<le> v \<and> v \<le> 1))"
  by (simp add: set_transparency_def Let_def)

lemma set_transparency_failure_state:
  "\<not> (0 \<le> v \<and> v \<le> 1) \<Longrightarrow> snd (set_transparency L l v) = register_appid l AcCmTransparency"
  by (auto simp: set_transparency_def Let_def)

lemma set_transparency_success_payload:
  "0 \<le> v \<Longrightarrow> v \<le> 1 \<Longrightarrow>
   xdata (snd (set_transparency L l v))
     = (xdata l)(AcCmTransparency \<mapsto> [(1071, IntValue (float2transparency L v))])"
  by (simp add: set_transparency_def Let_def set_xdata_def discard_xdata_def register_appid_def
      split: option.splits)

text \<open>
  C4: the setter of the transparency property is claimed to mutate no document state
  when it raises. It registers the application-id before it checks the range: on a
  layer whose document has no entry \<open>AcCmTransparency\<close> in its application-id table,
  setting the value 2 raises \<^verbatim>\<open>ValueError\<close> and leaves the document with the new entry.
  The other parts of the claim hold: see \<open>set_transparency_raises_iff\<close> and
  \<open>set_transparency_success_payload\<close>.
\<close>

theorem set_transparency_registers_before_check:
  "set_transparency L sample_attached 2 =
     (Inl (ValueError ''Value out of range (0 .. 1).''),
      sample_attached\<lparr>doc := Some (sample_doc\<lparr>appids :=
        [''acad'' \<mapsto> ''ACAD'', ''accmtransparency'' \<mapsto> ''AcCmTransparency'']\<rparr>)\<rparr>)
   \<and> \<not> has_entry (appids sample_doc) AcCmTransparency"
  by (simp add: set_transparency_def register_appid_def sample_attached_def sample_doc_def
      has_entry_def new_entry_def key_def lower_def lower_char_def AcCmTransparency_def)

subsection \<open>Renaming\<close>

lemma rename_reference_layer:
  "layer (fst (rename_reference old new e)) =
     (case layer e of None \<Rightarrow> None
      | Some n \<Rightarrow> if key n = key old then Some new else Some n)"
  by (simp add: rename_reference_def rename_frozen_layer_def Let_def split: option.splits)

lemma rename_reference_dxftype:
  "dxftype (fst (rename_reference old new e)) = dxftype e"
  by (simp add: rename_reference_def rename_frozen_layer_def Let_def split: option.splits)

lemma rename_references_eq:
  "rename_references old new db =
     (map (\<lambda>p. (fst p, fst (rename_reference old new (snd p)))) db,
      concat (map (\<lambda>p. snd (rename_reference old new (snd p))) db))"
  by (induction db) (auto simp: split_beta)

lemma rename_references_handles:
  "map fst (fst (rename_references old new db)) = map fst db"
  by (simp add: rename_references_eq comp_def)

lemma rename_references_nth:
  "i < length db \<Longrightarrow>
   snd (fst (rename_references old new db) ! i) = fst (rename_reference old new (snd (db ! i)))"
  by (simp add: rename_references_eq)

lemma rename_references_set:
  "set (fst (rename_references old new db)) =
     (\<lambda>p. (fst p, fst (rename_reference old new (snd p)))) ` set db"
  by (simp add: rename_references_eq)

lemma rename_references_notices:
  "set (snd (rename_references old new db)) =
     (\<Union>p \<in> set db. set (snd (rename_reference old new (snd p))))"
  by (simp add: rename_references_eq)

lemma rename_reference_notice_filter:
  "dxftype e = ''LAYER_FILTER'' \<Longrightarrow>
   snd (rename_reference old new e) = [renaming_notice old ''LAYER_FILTER'']"
  by (simp add: rename_reference_def Let_def split: option.splits)

lemma rename_reference_notice_index:
  "dxftype e = ''LAYER_INDEX'' \<Longrightarrow>
   snd (rename_reference old new e) = [renaming_notice old ''LAYER_INDEX'']"
  by (simp add: rename_reference_def Let_def split: option.splits)

lemma rename_success_iff:
  "doc l = Some d \<Longrightarrow>
   (fst (rename l B) = Inr ()) =
     (is_valid_layer_name B \<and> lower (name (dxf l)) \<notin> {''0'', ''defpoints''}
      \<and> \<not> has_entry (layers d) B)"
  by (simp add: rename_def rename_layer_references_def Let_def split: prod.splits)

lemma rename_success_state:
  assumes "doc l = Some d" and "fst (rename l B) = Inr ()"
  shows "rename l B =
     (Inr (),
      \<lparr>dxf = (dxf l)\<lparr>name := B\<rparr>, xdata = xdata l,
       doc = Some (d\<lparr>layers := replace_entry (layers d) (name (dxf l)) B (handle (dxf l)),
                     entitydb := fst (rename_references (name (dxf l)) B (entitydb d))\<rparr>)\<rparr>,
      snd (rename_references (name (dxf l)) B (entitydb d)))"
  using assms rename_success_iff[OF assms(1), of B]
  by (simp add: rename_def rename_layer_references_def Let_def split: prod.splits)


lemma registered_key_differs:
  "has_entry t a \<Longrightarrow> \<not> has_entry t b \<Longrightarrow> key b \<noteq> key a"
  by (auto simp: has_entry_def)

lemma sample_rename_eval:
  "rename sample_attached ''WALL'' =
     (Inr (),
      \<lparr>dxf = sample_dxf\<lparr>name := ''WALL''\<rparr>, xdata = Map.empty,
       doc = Some \<lparr>layers = [''0'' \<mapsto> ''10'', ''doors'' \<mapsto> ''2B'', ''wall'' \<mapsto> ''2A''],
         appids = [''acad'' \<mapsto> ''ACAD''],
         linetypes = [''continuous'' \<mapsto> ''14''],
         entitydb =
          [(''2A'', \<lparr>dxftype = ''LAYER'', layer = None, frozen_layers = None\<rparr>),
           (''30'', \<lparr>dxftype = ''LINE'', layer = Some ''WALL'', frozen_layers = None\<rparr>),
           (''31'', \<lparr>dxftype = ''CIRCLE'', layer = Some ''DOORS'', frozen_layers = None\<rparr>),
           (''32'', \<lparr>dxftype = ''VIEWPORT'', layer = Some ''0'', frozen_layers = Some [''WALL'']\<rparr>),
           (''33'', \<lparr>dxftype = ''LAYER_FILTER'', layer = None, frozen_layers = None\<rparr>)]\<rparr>\<rparr>,
      [renaming_notice ''WALLS'' ''LAYER_FILTER''])"
  by (simp add: rename_def rename_layer_references_def rename_reference_def
      rename_frozen_layer_def is_valid_layer_name_def INVALID_NAME_CHARACTERS_def
      has_entry_def replace_entry_def sample_defs key_defs Let_def)


text \<open>
  C2: for a layer that is an entry of the layer table of its document, \<open>rename l B\<close>
  succeeds exactly when \<open>B\<close> is a valid name, the layer is not one of the two protected
  layers and the table has no entry for \<open>B\<close>, whatever the entity database holds (also
  \<open>LAYER_FILTER\<close> and \<open>LAYER_INDEX\<close> entities, for which a debug message is logged).
  After a successful rename of the layer named \<open>A\<close>, the entity database has the same
  handles, every entity whose \<open>layer\<close> attribute equalled \<open>A\<close> case-insensitively has it
  rewritten to \<open>B\<close>, every other \<open>layer\<close> attribute is unchanged, and no entity
  references \<open>A\<close>.
\<close>

theorem rename_completeness:
  assumes d: "doc l = Some d"
      and reg: "has_entry (layers d) (name (dxf l))"
  shows "(fst (rename l B) = Inr ()) =
           (is_valid_layer_name B \<and> lower (name (dxf l)) \<notin> {''0'', ''defpoints''}
            \<and> \<not> has_entry (layers d) B)
    \<and> (fst (rename l B) = Inr () \<longrightarrow>
         (\<exists>d'. doc (fst (snd (rename l B))) = Some d'
            \<and> map fst (entitydb d') = map fst (entitydb d)
            \<and> (\<forall>i<length (entitydb d). \<forall>n. layer (snd (entitydb d ! i)) = Some n
                  \<longrightarrow> layer (snd (entitydb d' ! i))
                        = Some (if key n = key (name (dxf l)) then B else n))
            \<and> (\<forall>p\<in>set (entitydb d'). \<forall>n. layer (snd p) = Some n
                  \<longrightarrow> key n \<noteq> key (name (dxf l)))
            \<and> (\<forall>p\<in>set (entitydb d).
                  dxftype (snd p) = ''LAYER_FILTER'' \<or> dxftype (snd p) = ''LAYER_INDEX''
                  \<longrightarrow> renaming_notice (name (dxf l)) (dxftype (snd p))
                        \<in> set (snd (snd (rename l B))))))"
proof (intro conjI impI)
  show "(fst (rename l B) = Inr ()) =
           (is_valid_layer_name B \<and> lower (name (dxf l)) \<notin> {''0'', ''defpoints''}
            \<and> \<not> has_entry (layers d) B)"
    by (rule rename_success_iff[OF d])
next
  assume ok: "fst (rename l B) = Inr ()"
  let ?A = "name (dxf l)"
  let ?db' = "fst (rename_references ?A B (entitydb d))"
  let ?d' = "d\<lparr>layers := replace_entry (layers d) ?A B (handle (dxf l)), entitydb := ?db'\<rparr>"
  note st = rename_success_state[OF d ok]
  from ok rename_success_iff[OF d, of B] have "\<not> has_entry (layers d) B" by simp
  with reg have neq: "key B \<noteq> key ?A" by (rule registered_key_differs)
  have 1: "doc (fst (snd (rename l B))) = Some ?d'" by (simp add: st)
  have 2: "map fst (entitydb ?d') = map fst (entitydb d)"
    by (simp add: rename_references_handles)
  have 3: "\<forall>i<length (entitydb d). \<forall>n. layer (snd (entitydb d ! i)) = Some n
             \<longrightarrow> layer (snd (entitydb ?d' ! i)) = Some (if key n = key ?A then B else n)"
    by (simp add: rename_references_nth rename_reference_layer)
  have 4: "\<forall>p\<in>set (entitydb ?d'). \<forall>n. layer (snd p) = Some n \<longrightarrow> key n \<noteq> key ?A"
    using neq
    by (auto simp: rename_references_set rename_reference_layer split: option.splits if_splits)
  have 5: "\<forall>p\<in>set (entitydb d).
             dxftype (snd p) = ''LAYER_FILTER'' \<or> dxftype (snd p) = ''LAYER_INDEX''
             \<longrightarrow> renaming_notice ?A (dxftype (snd p)) \<in> set (snd (snd (rename l B)))"
  proof (intro ballI impI)
    fix p assume p: "p \<in> set (entitydb d)"
      and t: "dxftype (snd p) = ''LAYER_FILTER'' \<or> dxftype (snd p) = ''LAYER_INDEX''"
    from t have "renaming_notice ?A (dxftype (snd p)) \<in> set (snd (rename_reference ?A B (snd p)))"
      by (auto simp: rename_reference_notice_filter rename_reference_notice_index)
    with p show "renaming_notice ?A (dxftype (snd p)) \<in> set (snd (snd (rename l B)))"
      by (auto simp: st rename_references_notices)
  qed
  from 1 2 3 4 5 show "\<exists>d'. doc (fst (snd (rename l B))) = Some d'
            \<and> map fst (entitydb d') = map fst (entitydb d)
            \<and> (\<forall>i<length (entitydb d). \<forall>n. layer (snd (entitydb d ! i)) = Some n
                  \<longrightarrow> layer (snd (entitydb d' ! i))
                        = Some (if key n = key (name (dxf l)) then B else n))
            \<and> (\<forall>p\<in>set (entitydb d'). \<forall>n. layer (snd p) = Some n
                  \<longrightarrow> key n \<noteq> key (name (dxf l)))
            \<and> (\<forall>p\<in>set (entitydb d).
                  dxftype (snd p) = ''LAYER_FILTER'' \<or> dxftype (snd p) = ''LAYER_INDEX''
                  \<longrightarrow> renaming_notice (name (dxf l)) (dxftype (snd p))
                        \<in> set (snd (snd (rename l B))))"
    by blast
qed

theorem rename_completeness_witness:
  "doc sample_attached = Some sample_doc
   \<and> has_entry (layers sample_doc) (name (dxf sample_attached))
   \<and> fst (rename sample_attached ''WALL'') = Inr ()
   \<and> (\<exists>d'. doc (fst (snd (rename sample_attached ''WALL''))) = Some d'
         \<and> map fst (entitydb d') = map fst (entitydb sample_doc)
         \<and> (\<forall>p\<in>set (entitydb d'). \<forall>n. layer (snd p) = Some n \<longrightarrow> key n \<noteq> key ''WALLS'')
         \<and> layer (snd (entitydb d' ! 1)) = Some ''WALL'')
   \<and> renaming_notice ''WALLS'' ''LAYER_FILTER'' \<in> set (snd (snd (rename sample_attached ''WALL'')))"
proof -
  have h1: "doc sample_attached = Some sample_doc"
    by (simp add: sample_attached_def)
  have h2: "has_entry (layers sample_doc) (name (dxf sample_attached))"
    by (simp add: has_entry_def sample_defs key_defs)
  have h3: "fst (rename sample_attached ''WALL'') = Inr ()"
    by (simp add: sample_rename_eval)
  have n: "name (dxf sample_attached) = ''WALLS''"
    by (simp add: sample_defs)
  have e1: "1 < length (entitydb sample_doc)"
    "layer (snd (entitydb sample_doc ! 1)) = Some ''walls''" "key ''walls'' = key ''WALLS''"
    by (simp_all add: sample_defs key_defs)
  have e2: "(''33'', \<lparr>dxftype = ''LAYER_FILTER'', layer = None, frozen_layers = None\<rparr>)
      \<in> set (entitydb sample_doc)"
    by (simp add: sample_defs)
  from rename_completeness [OF h1 h2, of "''WALL''"] h3 n
  obtain d' where d': "doc (fst (snd (rename sample_attached ''WALL''))) = Some d'"
      "map fst (entitydb d') = map fst (entitydb sample_doc)"
      "\<forall>i<length (entitydb sample_doc). \<forall>n. layer (snd (entitydb sample_doc ! i)) = Some n
          \<longrightarrow> layer (snd (entitydb d' ! i)) = Some (if key n = key ''WALLS'' then ''WALL'' else n)"
      "\<forall>p\<in>set (entitydb d'). \<forall>n. layer (snd p) = Some n \<longrightarrow> key n \<noteq> key ''WALLS''"
      "\<forall>p\<in>set (entitydb sample_doc).
          dxftype (snd p) = ''LAYER_FILTER'' \<or> dxftype (snd p) = ''LAYER_INDEX''
          \<longrightarrow> renaming_notice ''WALLS'' (dxftype (snd p))
                \<in> set (snd (snd (rename sample_attached ''WALL'')))"
    by auto
  from d'(3) e1 have "layer (snd (entitydb d' ! 1)) = Some ''WALL''" by auto
  moreover from d'(5) e2
  have "renaming_notice ''WALLS'' ''LAYER_FILTER'' \<in> set (snd (snd (rename sample_attached ''WALL'')))"
    by fastforce
  ultimately show ?thesis using h1 h2 h3 d'(1,2,4) by blast
qed


text \<open>
  C3: \<open>rename l nm\<close> raises when the current name of the layer is \<open>0\<close> or \<open>DEFPOINTS\<close>
  (in any case), when \<open>nm\<close> contains one of the reserved characters, or when the layer
  table of the document has an entry under the key of \<open>nm\<close>; and then the layer with
  its name, the tables and the entity database of its document are what they were, and
  nothing is logged.
\<close>

theorem rename_rejection:
  assumes "lower (name (dxf l)) \<in> {''0'', ''defpoints''}
           \<or> (\<exists>c\<in>set nm. c \<in> set INVALID_NAME_CHARACTERS)
           \<or> (\<exists>d h. doc l = Some d \<and> layers d (key nm) = Some h)"
  shows "\<exists>e. rename l nm = (Inl e, l, [])"
  using assms
  by (auto simp: rename_def is_valid_layer_name_def list_ex_iff has_entry_def Let_def
      split: option.splits)


theorem rename_rejection_witness:
  "(\<exists>e. rename (sample_attached\<lparr>dxf := sample_dxf\<lparr>name := ''DEFPOINTS''\<rparr>\<rparr>) ''AUX''
         = (Inl e, sample_attached\<lparr>dxf := sample_dxf\<lparr>name := ''DEFPOINTS''\<rparr>\<rparr>, []))
   \<and> (\<exists>e. rename sample_attached ''WALL*'' = (Inl e, sample_attached, []))
   \<and> (\<exists>e. rename sample_attached ''Doors'' = (Inl e, sample_attached, []))"
proof -
  have a: "lower (name (dxf (sample_attached\<lparr>dxf := sample_dxf\<lparr>name := ''DEFPOINTS''\<rparr>\<rparr>)))
            \<in> {''0'', ''defpoints''}"
    by (simp add: key_defs)
  have b: "\<exists>c\<in>set ''WALL*''. c \<in> set INVALID_NAME_CHARACTERS"
    by (simp add: INVALID_NAME_CHARACTERS_def)
  have c: "\<exists>d h. doc sample_attached = Some d \<and> layers d (key ''Doors'') = Some h"
    by (simp add: sample_defs key_defs)
  show ?thesis
    using rename_rejection [of "sample_attached\<lparr>dxf := sample_dxf\<lparr>name := ''DEFPOINTS''\<rparr>\<rparr>" "''AUX''"]
      rename_rejection [of sample_attached "''WALL*''"]
      rename_rejection [of sample_attached "''Doors''"] a b c
    by blast
qed


subsection \<open>Export\<close>

lemma export_dxf_attribs_written:
  "written (export_dxf_attribs L ns tw as)
     = written tw @ concat (map (attrib_tags L ns (dxfversion tw)) as)"
  by (induction as arbitrary: tw) simp_all

lemma export_dxf_attribs_dxfversion:
  "dxfversion (export_dxf_attribs L ns tw as) = dxfversion tw"
  by (induction as arbitrary: tw) simp_all

lemma attrib_tags_codes:
  "subseq (map fst (attrib_tags L ns ver a)) (declared_codes L a)"
  by (simp add: attrib_tags_def declared_codes_def split: option.splits)

lemma attribs_tags_codes:
  "subseq (map fst (concat (map (attrib_tags L ns ver) as)))
     (concat (map (declared_codes L) as))"
proof (induction as)
  case Nil
  show ?case by simp
next
  case (Cons a as)
  from attrib_tags_codes [of L ns ver a] Cons.IH show ?case
    by (simp add: list_emb_append_mono)
qed

lemma layer_declared_codes:
  "concat (map (declared_codes L)
      [''name'', ''flags'', ''color'', ''true_color'', ''linetype'', ''plot'',
       ''lineweight'', ''plotstyle_handle'', ''material_handle'', ''unknown1''])
     = [2, 70, 62, 420, 6, 290, 370, 390, 347, 348]"
  by (simp add: declared_codes_def acdb_layer_table_record_def)

lemma sample_attrib_tags_r2000:
  "concat (map (attrib_tags sample_lib sample_dxf ''AC1015'')
      [''name'', ''flags'', ''color'', ''true_color'', ''linetype'', ''plot'',
       ''lineweight'', ''plotstyle_handle'', ''material_handle'', ''unknown1''])
   = [(2, StrValue ''WALLS''), (70, IntValue 0), (62, IntValue (-5)),
      (6, StrValue ''Continuous''), (370, IntValue (-3))]"
  by (simp add: attrib_tags_def acdb_layer_table_record_def attrib_value_def sample_lib_def
      sample_dxf_def)

lemma sample_attrib_tags_r12:
  "concat (map (attrib_tags sample_lib sample_dxf ''AC1009'')
      [''name'', ''flags'', ''color'', ''true_color'', ''linetype'', ''plot'',
       ''lineweight'', ''plotstyle_handle'', ''material_handle'', ''unknown1''])
   = [(2, StrValue ''WALLS''), (70, IntValue 0), (62, IntValue (-5)),
      (6, StrValue ''Continuous'')]"
  by (simp add: attrib_tags_def acdb_layer_table_record_def attrib_value_def sample_lib_def
      sample_dxf_def)

text \<open>
  C7: \<open>export_entity\<close> writes, after what the inherited export wrote, the two subclass
  markers \<open>AcDbSymbolTableRecord\<close> and \<open>AcDbLayerTableRecord\<close> exactly when the version
  of the tag writer is greater than \<open>DXF12\<close> (none of them at \<open>DXF12\<close>), and after them
  the tags of the attributes \<open>name\<close>, \<open>flags\<close>, \<open>color\<close>, \<open>true_color\<close>, \<open>linetype\<close>,
  \<open>plot\<close>, \<open>lineweight\<close>, \<open>plotstyle_handle\<close>, \<open>material_handle\<close>, \<open>unknown1\<close> in this
  order: the group codes written for them are a subsequence of
  2, 70, 62, 420, 6, 290, 370, 390, 347, 348.
\<close>

theorem export_entity_markers:
  "written (export_entity L l tw) =
     written (DXFEntity_export_entity L l tw)
     @ (if dxfversion (DXFEntity_export_entity L l tw) > DXF12 L
        then [(SUBCLASS_MARKER L, StrValue ''AcDbSymbolTableRecord''),
              (SUBCLASS_MARKER L, StrValue ''AcDbLayerTableRecord'')]
        else [])
     @ concat (map (attrib_tags L (dxf l) (dxfversion (DXFEntity_export_entity L l tw)))
         [''name'', ''flags'', ''color'', ''true_color'', ''linetype'', ''plot'',
          ''lineweight'', ''plotstyle_handle'', ''material_handle'', ''unknown1''])
   \<and> subseq (map fst (concat (map (attrib_tags L (dxf l)
                 (dxfversion (DXFEntity_export_entity L l tw)))
         [''name'', ''flags'', ''color'', ''true_color'', ''linetype'', ''plot'',
          ''lineweight'', ''plotstyle_handle'', ''material_handle'', ''unknown1''])))
        [2, 70, 62, 420, 6, 290, 370, 390, 347, 348]"
proof
  show "written (export_entity L l tw) =
     written (DXFEntity_export_entity L l tw)
     @ (if dxfversion (DXFEntity_export_entity L l tw) > DXF12 L
        then [(SUBCLASS_MARKER L, StrValue ''AcDbSymbolTableRecord''),
              (SUBCLASS_MARKER L, StrValue ''AcDbLayerTableRecord'')]
        else [])
     @ concat (map (attrib_tags L (dxf l) (dxfversion (DXFEntity_export_entity L l tw)))
         [''name'', ''flags'', ''color'', ''true_color'', ''linetype'', ''plot'',
          ''lineweight'', ''plotstyle_handle'', ''material_handle'', ''unknown1''])"
    unfolding export_entity_def Let_def export_dxf_attribs_written
    by (simp add: write_tag2_def)
next
  show "subseq (map fst (concat (map (attrib_tags L (dxf l)
                 (dxfversion (DXFEntity_export_entity L l tw)))
         [''name'', ''flags'', ''color'', ''true_color'', ''linetype'', ''plot'',
          ''lineweight'', ''plotstyle_handle'', ''material_handle'', ''unknown1''])))
        [2, 70, 62, 420, 6, 290, 370, 390, 347, 348]"
    using attribs_tags_codes [of L "dxf l" "dxfversion (DXFEntity_export_entity L l tw)"
        "[''name'', ''flags'', ''color'', ''true_color'', ''linetype'', ''plot'',
          ''lineweight'', ''plotstyle_handle'', ''material_handle'', ''unknown1'']"]
    unfolding layer_declared_codes .
qed

theorem export_entity_markers_witness:
  "written (export_entity sample_lib sample_layer \<lparr>dxfversion = ''AC1015'', written = []\<rparr>)
     = [(100, StrValue ''AcDbSymbolTableRecord''), (100, StrValue ''AcDbLayerTableRecord''),
        (2, StrValue ''WALLS''), (70, IntValue 0), (62, IntValue (-5)),
        (6, StrValue ''Continuous''), (370, IntValue (-3))]
   \<and> written (export_entity sample_lib sample_layer \<lparr>dxfversion = ''AC1009'', written = []\<rparr>)
     = [(2, StrValue ''WALLS''), (70, IntValue 0), (62, IntValue (-5)),
        (6, StrValue ''Continuous'')]"
proof -
  let ?t15 = "\<lparr>dxfversion = ''AC1015'', written = []\<rparr>"
  let ?t09 = "\<lparr>dxfversion = ''AC1009'', written = []\<rparr>"
  have s: "DXF12 sample_lib = ''AC1009''" "SUBCLASS_MARKER sample_lib = 100"
    "dxf sample_layer = sample_dxf"
    by (simp_all add: sample_lib_def sample_layer_def)
  have v15: "dxfversion (DXFEntity_export_entity sample_lib sample_layer ?t15) = ''AC1015''"
    "written (DXFEntity_export_entity sample_lib sample_layer ?t15) = []"
    by (simp_all add: sample_lib_def)
  have v09: "dxfversion (DXFEntity_export_entity sample_lib sample_layer ?t09) = ''AC1009''"
    "written (DXFEntity_export_entity sample_lib sample_layer ?t09) = []"
    by (simp_all add: sample_lib_def)
  from export_entity_markers [of sample_lib sample_layer ?t15]
  have a: "written (export_entity sample_lib sample_layer ?t15)
     = [(100, StrValue ''AcDbSymbolTableRecord''), (100, StrValue ''AcDbLayerTableRecord''),
        (2, StrValue ''WALLS''), (70, IntValue 0), (62, IntValue (-5)),
        (6, StrValue ''Continuous''), (370, IntValue (-3))]"
    unfolding v15 s sample_attrib_tags_r2000 by simp
  from export_entity_markers [of sample_lib sample_layer ?t09]
  have b: "written (export_entity sample_lib sample_layer ?t09)
     = [(2, StrValue ''WALLS''), (70, IntValue 0), (62, IntValue (-5)),
        (6, StrValue ''Continuous'')]"
    unfolding v09 s sample_attrib_tags_r12 by simp
  from a b show ?thesis by simp
qed



subsection \<open>Viewport overrides\<close>

lemma default_settings_fields:
  "default_settings L vo fr = Inr a \<Longrightarrow>
     aci a = get_color (v_layer vo) \<and> rgb a = layer_rgb L (v_layer vo)
     \<and> transparency L (v_layer vo) = Inr (vp_transparency a)
     \<and> vp_linetype a = linetype (dxf (v_layer vo))
     \<and> vp_lineweight a = lineweight (dxf (v_layer vo)) \<and> frozen a = fr"
  by (auto simp: default_settings_def Let_def split: sum.splits)

lemma default_settings_readable:
  "transparency L (v_layer vo) = Inr t \<Longrightarrow>
   default_settings L vo fr =
     Inr \<lparr>aci = get_color (v_layer vo), rgb = layer_rgb L (v_layer vo), vp_transparency = t,
          vp_linetype = linetype (dxf (v_layer vo)),
          vp_lineweight = lineweight (dxf (v_layer vo)), frozen = fr\<rparr>"
  by (simp add: default_settings_def Let_def)



lemma get_overrides_unmaterialized:
  "overrides vo h = None \<Longrightarrow> is_layer_frozen_in_vp (v_layer vo) h = Inr fr
    \<Longrightarrow> get_overrides L vo h = default_settings L vo fr"
  by (simp add: get_overrides_def)

lemma read_overrides_unmaterialized:
  "overrides vo h = None \<Longrightarrow> is_layer_frozen_in_vp (v_layer vo) h = Inr fr
    \<Longrightarrow> default_settings L vo fr = Inr dflt
    \<Longrightarrow> read_overrides L vo h field = (Inr (field dflt), vo)"
  by (simp add: read_overrides_def get_overrides_unmaterialized)

lemma acquire_overrides_unmaterialized:
  "overrides vo h = None \<Longrightarrow> is_layer_frozen_in_vp (v_layer vo) h = Inr fr
    \<Longrightarrow> default_settings L vo fr = Inr dflt
    \<Longrightarrow> acquire_overrides L vo h = (Inr dflt, vo\<lparr>overrides := (overrides vo)(h \<mapsto> dflt)\<rparr>)"
  by (simp add: acquire_overrides_def)

lemma modify_overrides_unmaterialized:
  "overrides vo h = None \<Longrightarrow> is_layer_frozen_in_vp (v_layer vo) h = Inr fr
    \<Longrightarrow> default_settings L vo fr = Inr dflt
    \<Longrightarrow> modify_overrides L vo h f = (Inr (), vo\<lparr>overrides := (overrides vo)(h \<mapsto> f dflt)\<rparr>)"
  by (simp add: modify_overrides_def acquire_overrides_unmaterialized)

lemma sample_transparency: "transparency L sample_attached = Inr 0"
  by (simp add: transparency_absent_payload sample_defs)

lemma sample_frozen_in_viewport: "is_layer_frozen_in_vp sample_attached ''32'' = Inr True"
  by (simp add: is_layer_frozen_in_vp_def sample_defs)

lemma sample_default_settings:
  "default_settings sample_lib sample_overrides fr =
     Inr \<lparr>aci = 5, rgb = None, vp_transparency = 0, vp_linetype = ''Continuous'',
          vp_lineweight = -3, frozen = fr\<rparr>"
proof -
  have t: "transparency sample_lib (v_layer sample_overrides) = Inr 0"
    by (simp add: sample_overrides_def sample_transparency)
  show ?thesis
    unfolding default_settings_readable [OF t]
    by (simp add: sample_overrides_def get_color_def layer_rgb_def sample_defs)
qed






text \<open>
  C9, as claimed, fails for reads: on the sample store the handle \<open>32\<close> has no entry,
  \<open>is_frozen\<close> and \<open>get_color\<close> return the values derived from the layer and the
  viewport, and the handle has no entry afterwards.
\<close>

theorem read_leaves_handle_unmaterialized:
  "\<not> has_overrides sample_overrides (Some ''32'')
   \<and> vp_is_frozen sample_lib sample_overrides ''32'' = (Inr True, sample_overrides)
   \<and> vp_get_color sample_lib sample_overrides ''32'' = (Inr 5, sample_overrides)
   \<and> \<not> has_overrides (snd (vp_is_frozen sample_lib sample_overrides ''32'')) (Some ''32'')
   \<and> \<not> has_overrides (snd (vp_get_color sample_lib sample_overrides ''32'')) (Some ''32'')"
proof -
  have none: "overrides sample_overrides ''32'' = None"
    by (simp add: sample_overrides_def)
  have fr: "is_layer_frozen_in_vp (v_layer sample_overrides) ''32'' = Inr True"
    by (simp add: sample_overrides_def sample_frozen_in_viewport)
  have g: "get_overrides sample_lib sample_overrides ''32'' =
     Inr \<lparr>aci = 5, rgb = None, vp_transparency = 0, vp_linetype = ''Continuous'',
          vp_lineweight = -3, frozen = True\<rparr>"
    by (simp add: get_overrides_def none fr sample_default_settings)
  have 1: "vp_is_frozen sample_lib sample_overrides ''32'' = (Inr True, sample_overrides)"
    by (simp add: vp_is_frozen_def read_overrides_def g)
  have 2: "vp_get_color sample_lib sample_overrides ''32'' = (Inr 5, sample_overrides)"
    by (simp add: vp_get_color_def read_overrides_def g)
  have 3: "\<not> has_overrides sample_overrides (Some ''32'')"
    by (simp add: has_overrides_def sample_overrides_def)
  from 1 2 3 show ?thesis by simp
qed

text \<open>
  C9, amended: for a store and a handle without an entry, where the frozen flag and the
  settings of the layer can be read, \<open>dflt\<close> being the default settings (the color,
  true color, transparency, linetype and lineweight of the layer as they are, and the
  frozen flag read from the viewport): every getter returns its field of \<open>dflt\<close> and
  leaves the store as it is, without an entry for the handle; \<open>_acquire_overrides\<close>
  stores \<open>dflt\<close> under the handle; every setter with a valid argument stores \<open>dflt\<close>
  with the written field under the handle and changes no other entry; a setter with an
  invalid argument raises and leaves the store as it is.
\<close>

theorem override_materialization_on_write:
  assumes none: "overrides vo h = None"
      and fr: "is_layer_frozen_in_vp (v_layer vo) h = Inr fr"
      and dflt: "default_settings L vo fr = Inr dflt"
  shows "aci dflt = get_color (v_layer vo) \<and> rgb dflt = layer_rgb L (v_layer vo)
     \<and> transparency L (v_layer vo) = Inr (vp_transparency dflt)
     \<and> vp_linetype dflt = linetype (dxf (v_layer vo))
     \<and> vp_lineweight dflt = lineweight (dxf (v_layer vo)) \<and> frozen dflt = fr
     \<and> vp_get_color L vo h = (Inr (aci dflt), vo)
     \<and> vp_get_rgb L vo h = (Inr (rgb dflt), vo)
     \<and> vp_get_transparency L vo h = (Inr (vp_transparency dflt), vo)
     \<and> vp_get_linetype L vo h = (Inr (vp_linetype dflt), vo)
     \<and> vp_get_lineweight L vo h = (Inr (vp_lineweight dflt), vo)
     \<and> vp_is_frozen L vo h = (Inr fr, vo)
     \<and> \<not> has_overrides vo (Some h)
     \<and> acquire_overrides L vo h = (Inr dflt, vo\<lparr>overrides := (overrides vo)(h \<mapsto> dflt)\<rparr>)
     \<and> vp_set_color L vo h v =
         (if is_valid_layer_color_index v
          then (Inr (), vo\<lparr>overrides := (overrides vo)(h \<mapsto> dflt\<lparr>aci := v\<rparr>)\<rparr>)
          else (Inl (ValueError ''invalid ACI value''), vo))
     \<and> vp_set_rgb L vo h c =
         (if (case c of None \<Rightarrow> True | Some x \<Rightarrow> is_valid_rgb L x)
          then (Inr (), vo\<lparr>overrides := (overrides vo)(h \<mapsto> dflt\<lparr>rgb := c\<rparr>)\<rparr>)
          else (Inl (ValueError ''invalid RGB value''), vo))
     \<and> vp_set_transparency L vo h x =
         (if 0 \<le> x \<and> x \<le> 1
          then (Inr (), vo\<lparr>overrides := (overrides vo)(h \<mapsto> dflt\<lparr>vp_transparency := x\<rparr>)\<rparr>)
          else (Inl (ValueError ''invalid transparency''), vo))
     \<and> (\<exists>d. doc (v_layer vo) = Some d \<and> vp_set_linetype L vo h lt =
         (if has_entry (linetypes d) lt
          then (Inr (), vo\<lparr>overrides := (overrides vo)(h \<mapsto> dflt\<lparr>vp_linetype := lt\<rparr>)\<rparr>)
          else (Inl (ValueError ''invalid linetype''), vo)))
     \<and> vp_set_lineweight L vo h w =
         (if is_valid_layer_lineweight L w
          then (Inr (), vo\<lparr>overrides := (overrides vo)(h \<mapsto> dflt\<lparr>vp_lineweight := w\<rparr>)\<rparr>)
          else (Inl (ValueError ''invalid lineweight''), vo))
     \<and> vp_freeze L vo h = (Inr (), vo\<lparr>overrides := (overrides vo)(h \<mapsto> dflt\<lparr>frozen := True\<rparr>)\<rparr>)
     \<and> vp_thaw L vo h = (Inr (), vo\<lparr>overrides := (overrides vo)(h \<mapsto> dflt\<lparr>frozen := False\<rparr>)\<rparr>)"
proof -
  note rd = read_overrides_unmaterialized [OF none fr dflt]
  note md = modify_overrides_unmaterialized [OF none fr dflt]
  from fr obtain d where d: "doc (v_layer vo) = Some d"
    by (auto simp: is_layer_frozen_in_vp_def split: option.splits)
  have seed: "aci dflt = get_color (v_layer vo) \<and> rgb dflt = layer_rgb L (v_layer vo)
     \<and> transparency L (v_layer vo) = Inr (vp_transparency dflt)
     \<and> vp_linetype dflt = linetype (dxf (v_layer vo))
     \<and> vp_lineweight dflt = lineweight (dxf (v_layer vo)) \<and> frozen dflt = fr"
    by (rule default_settings_fields [OF dflt])
  have reads: "vp_get_color L vo h = (Inr (aci dflt), vo)"
    "vp_get_rgb L vo h = (Inr (rgb dflt), vo)"
    "vp_get_transparency L vo h = (Inr (vp_transparency dflt), vo)"
    "vp_get_linetype L vo h = (Inr (vp_linetype dflt), vo)"
    "vp_get_lineweight L vo h = (Inr (vp_lineweight dflt), vo)"
    "vp_is_frozen L vo h = (Inr fr, vo)"
    using seed
    by (simp_all add: vp_get_color_def vp_get_rgb_def vp_get_transparency_def
        vp_get_linetype_def vp_get_lineweight_def vp_is_frozen_def rd)
  have unmat: "\<not> has_overrides vo (Some h)"
    using none by (simp add: has_overrides_def dom_def)
  have acq: "acquire_overrides L vo h = (Inr dflt, vo\<lparr>overrides := (overrides vo)(h \<mapsto> dflt)\<rparr>)"
    by (rule acquire_overrides_unmaterialized [OF none fr dflt])
  have w1: "vp_set_color L vo h v =
         (if is_valid_layer_color_index v
          then (Inr (), vo\<lparr>overrides := (overrides vo)(h \<mapsto> dflt\<lparr>aci := v\<rparr>)\<rparr>)
          else (Inl (ValueError ''invalid ACI value''), vo))"
    by (simp add: vp_set_color_def md)
  have w2: "vp_set_rgb L vo h c =
         (if (case c of None \<Rightarrow> True | Some x \<Rightarrow> is_valid_rgb L x)
          then (Inr (), vo\<lparr>overrides := (overrides vo)(h \<mapsto> dflt\<lparr>rgb := c\<rparr>)\<rparr>)
          else (Inl (ValueError ''invalid RGB value''), vo))"
    by (simp add: vp_set_rgb_def md split: option.splits)
  have w3: "vp_set_transparency L vo h x =
         (if 0 \<le> x \<and> x \<le> 1
          then (Inr (), vo\<lparr>overrides := (overrides vo)(h \<mapsto> dflt\<lparr>vp_transparency := x\<rparr>)\<rparr>)
          else (Inl (ValueError ''invalid transparency''), vo))"
    by (simp add: vp_set_transparency_def md)
  have w4: "\<exists>d. doc (v_layer vo) = Some d \<and> vp_set_linetype L vo h lt =
         (if has_entry (linetypes d) lt
          then (Inr (), vo\<lparr>overrides := (overrides vo)(h \<mapsto> dflt\<lparr>vp_linetype := lt\<rparr>)\<rparr>)
          else (Inl (ValueError ''invalid linetype''), vo))"
    using d by (simp add: vp_set_linetype_def md)
  have w5: "vp_set_lineweight L vo h w =
         (if is_valid_layer_lineweight L w
          then (Inr (), vo\<lparr>overrides := (overrides vo)(h \<mapsto> dflt\<lparr>vp_lineweight := w\<rparr>)\<rparr>)
          else (Inl (ValueError ''invalid lineweight''), vo))"
    by (simp add: vp_set_lineweight_def md)
  have w6: "vp_freeze L vo h = (Inr (), vo\<lparr>overrides := (overrides vo)(h \<mapsto> dflt\<lparr>frozen := True\<rparr>)\<rparr>)"
    "vp_thaw L vo h = (Inr (), vo\<lparr>overrides := (overrides vo)(h \<mapsto> dflt\<lparr>frozen := False\<rparr>)\<rparr>)"
    by (simp_all add: vp_freeze_def vp_thaw_def md)
  show ?thesis
    by (intro conjI) (use seed reads unmat acq w1 w2 w3 w4 w5 w6 in blast)+
qed

theorem override_materialization_on_write_witness:
  "overrides sample_overrides ''32'' = None
   \<and> is_layer_frozen_in_vp (v_layer sample_overrides) ''32'' = Inr True
   \<and> default_settings sample_lib sample_overrides True =
       Inr \<lparr>aci = 5, rgb = None, vp_transparency = 0, vp_linetype = ''Continuous'',
            vp_lineweight = -3, frozen = True\<rparr>
   \<and> vp_get_color sample_lib sample_overrides ''32'' = (Inr 5, sample_overrides)
   \<and> vp_set_color sample_lib sample_overrides ''32'' 3 =
       (Inr (), sample_overrides\<lparr>overrides :=
          [''32'' \<mapsto> \<lparr>aci = 3, rgb = None, vp_transparency = 0, vp_linetype = ''Continuous'',
                       vp_lineweight = -3, frozen = True\<rparr>]\<rparr>)
   \<and> vp_set_color sample_lib sample_overrides ''32'' 256 =
       (Inl (ValueError ''invalid ACI value''), sample_overrides)
   \<and> vp_thaw sample_lib sample_overrides ''32'' =
       (Inr (), sample_overrides\<lparr>overrides :=
          [''32'' \<mapsto> \<lparr>aci = 5, rgb = None, vp_transparency = 0, vp_linetype = ''Continuous'',
                       vp_lineweight = -3, frozen = False\<rparr>]\<rparr>)"
proof -
  have h1: "overrides sample_overrides ''32'' = None"
    by (simp add: sample_overrides_def)
  have h2: "is_layer_frozen_in_vp (v_layer sample_overrides) ''32'' = Inr True"
    by (simp add: sample_overrides_def sample_frozen_in_viewport)
  have h3: "default_settings sample_lib sample_overrides True =
       Inr \<lparr>aci = 5, rgb = None, vp_transparency = 0, vp_linetype = ''Continuous'',
            vp_lineweight = -3, frozen = True\<rparr>"
    by (rule sample_default_settings)
  have e: "overrides sample_overrides = Map.empty"
    by (simp add: sample_overrides_def)
  from override_materialization_on_write [OF h1 h2 h3, of 3 None 0 "''Continuous''" 0]
  have a: "vp_get_color sample_lib sample_overrides ''32'' = (Inr 5, sample_overrides)"
    and b: "vp_set_color sample_lib sample_overrides ''32'' 3 =
       (Inr (), sample_overrides\<lparr>overrides :=
          [''32'' \<mapsto> \<lparr>aci = 3, rgb = None, vp_transparency = 0, vp_linetype = ''Continuous'',
                       vp_lineweight = -3, frozen = True\<rparr>]\<rparr>)"
    and c: "vp_thaw sample_lib sample_overrides ''32'' =
       (Inr (), sample_overrides\<lparr>overrides :=
          [''32'' \<mapsto> \<lparr>aci = 5, rgb = None, vp_transparency = 0, vp_linetype = ''Continuous'',
                       vp_lineweight = -3, frozen = False\<rparr>]\<rparr>)"
    by (simp_all add: e is_valid_layer_color_index_def)
  from override_materialization_on_write [OF h1 h2 h3, of 256 None 0 "''Continuous''" 0]
  have d: "vp_set_color sample_lib sample_overrides ''32'' 256 =
       (Inl (ValueError ''invalid ACI value''), sample_overrides)"
    by (simp add: is_valid_layer_color_index_def)
  from h1 h2 h3 a b c d show ?thesis by simp
qed


end
